theory Spec2Isabelle
  imports Main
begin

section \<open>The root layout of the resume builder (src/app/layout.tsx)\<close>

text \<open>
  The only program text of the repository fragment is the Next.js root layout
  \<^verbatim>\<open>src/app/layout.tsx\<close>: a directive, six imports and the default export
  \<^verbatim>\<open>RootLayout\<close>, a function component whose body is one \<^verbatim>\<open>return\<close> of a JSX
  expression. The embedding has three parts: the values a component receives and
  returns (React nodes), the module around the function (its import bindings),
  and the function itself, once as the tree it returns and once as the call
  that builds it.
\<close>

subsection \<open>React nodes\<close>

text \<open>
  The first argument of \<^verbatim>\<open>jsx\<close>/\<^verbatim>\<open>createElement\<close>: a lower-case JSX tag is a
  host element named by a string, an upper-case tag is the value of an identifier
  in scope, here always an import binding of the module.
\<close>

datatype element_type = Intrinsic string | Component string

text \<open>
  The value of a JSX attribute: a string literal (\<^verbatim>\<open>lang="en"\<close>), an identifier
  in braces (\<^verbatim>\<open>store={store}\<close>), or any other JavaScript value, which only nodes
  handed in from outside can carry and which the layout never inspects.
\<close>

datatype 'x prop_value = StringLiteral string | Identifier string | OtherValue 'x

text \<open>
  \<^verbatim>\<open>React.ReactNode\<close> is the union of \<^verbatim>\<open>null\<close>, \<^verbatim>\<open>undefined\<close>, booleans, strings,
  numbers, portals, iterables of nodes and elements. Numbers and portals are
  opaque to the layout and share the constructor \<open>ROther\<close>. An element holds its
  type, its attributes in source order and its child nodes in source order; a
  fragment \<^verbatim>\<open><>...</>\<close> is an element of the component \<^verbatim>\<open>Fragment\<close>, so the empty
  fragment is \<open>Element (Component ''Fragment'') [] []\<close>.
\<close>

datatype 'x node =
    RNull
  | RUndefined
  | RBoolean bool
  | RString string
  | ROther 'x
  | RArray "'x node list"
  | Element element_type "(string \<times> 'x prop_value) list" "'x node list"

fun type_of :: "'x node \<Rightarrow> element_type option" where
  "type_of (Element ty ps ks) = Some ty"
| "type_of _ = None"

fun props_of :: "'x node \<Rightarrow> (string \<times> 'x prop_value) list" where
  "props_of (Element ty ps ks) = ps"
| "props_of _ = []"

fun kids :: "'x node \<Rightarrow> 'x node list" where
  "kids (Element ty ps ks) = ks"
| "kids (RArray ks) = ks"
| "kids _ = []"

text \<open>The attribute \<open>k\<close> of a node, when it is an element that has one.\<close>

definition attr :: "'x node \<Rightarrow> string \<Rightarrow> 'x prop_value option" where
  "attr t k = map_of (props_of t) k"

text \<open>
  Positions in a tree are paths of child indices from the root. \<open>subtree_at\<close>
  reads the node at a path and \<open>subst_at\<close> replaces it, leaving the tree as it is
  when the path leaves the tree.
\<close>

fun subtree_at :: "nat list \<Rightarrow> 'x node \<Rightarrow> 'x node option" where
  "subtree_at [] t = Some t"
| "subtree_at (i # p) t =
     (if i < length (kids t) then subtree_at p (kids t ! i) else None)"

fun subst_at :: "nat list \<Rightarrow> 'x node \<Rightarrow> 'x node \<Rightarrow> 'x node" where
  "subst_at [] new t = new"
| "subst_at (i # p) new (Element ty ps ks) =
     Element ty ps (if i < length ks then ks[i := subst_at p new (ks ! i)] else ks)"
| "subst_at (i # p) new (RArray ks) =
     RArray (if i < length ks then ks[i := subst_at p new (ks ! i)] else ks)"
| "subst_at (i # p) new t = t"

subsection \<open>The module\<close>

text \<open>
  The top-level items of a module, as far as the layout file uses them: a
  directive (an expression statement that is a string literal), an import for
  its effect only, a named import, a default import, and the default export of a
  function declaration.
\<close>

datatype module_item =
    Directive string
  | ImportEffect string
  | ImportNamed string string
  | ImportDefault string string
  | ExportDefaultFunction string

text \<open>Lines 1 to 9 of the file, in order.\<close>

definition layout_module :: "module_item list" where
  "layout_module =
    [Directive ''use client'',
     ImportEffect ''globals.css'',
     ImportNamed ''TopNavBar'' ''components/TopNavBar'',
     ImportNamed ''Analytics'' ''@vercel/analytics/react'',
     ImportNamed ''Provider'' ''react-redux'',
     ImportNamed ''store'' ''lib/redux/store'',
     ImportDefault ''Head'' ''next/head'',
     ExportDefaultFunction ''RootLayout'']"

text \<open>The module specifier an identifier is imported from, if it is imported.\<close>

fun import_source :: "module_item list \<Rightarrow> string \<Rightarrow> string option" where
  "import_source [] x = None"
| "import_source (ImportNamed y src # items) x =
     (if x = y then Some src else import_source items x)"
| "import_source (ImportDefault y src # items) x =
     (if x = y then Some src else import_source items x)"
| "import_source (_ # items) x = import_source items x"

subsection \<open>RootLayout\<close>

text \<open>
  The parameter of the component is one object, destructured to its only
  field: \<^verbatim>\<open>{ children }: { children: React.ReactNode }\<close>.
\<close>

record 'x layout_props =
  children :: "'x node"

text \<open>
  The JSX expression of the \<^verbatim>\<open>return\<close> statement, lines 15 to 30. Line breaks
  and indentation between tags produce no text nodes in JSX, so the only text
  child is the one of \<^verbatim>\<open>title\<close>.
\<close>

definition RootLayout :: "'x layout_props \<Rightarrow> 'x node" where
  "RootLayout props =
    Element (Intrinsic ''html'') [(''lang'', StringLiteral ''en'')]
      [Element (Component ''Head'') []
         [Element (Intrinsic ''title'') []
            [RString ''AI Resume - Free Open-source Resume Builder and Parser''],
          Element (Intrinsic ''meta'')
            [(''name'', StringLiteral ''description''),
             (''content'', StringLiteral
                ''AI Resume is a free, open-source, and powerful resume builder that allows anyone to create a modern professional resume in 3 simple steps. For those who have an existing resume, AI Resume also provides a resume parser to help test and confirm its ATS readability.'')]
            []],
       Element (Intrinsic ''body'') []
         [Element (Component ''Provider'') [(''store'', Identifier ''store'')]
            [Element (Component ''TopNavBar'') [] [],
             children props,
             Element (Component ''Analytics'') [] []]]]"

subsection \<open>Calls\<close>

text \<open>
  A JavaScript computation runs in an ambient world \<open>w\<close> of everything it could
  read or write besides its arguments (module variables, hook state, the
  console) and completes by returning a value or by throwing; either way it
  hands on a world. Sequencing stops at the first throw.
\<close>

datatype 'a completion = Return 'a | Throw string

type_synonym ('w, 'a) js = "'w \<Rightarrow> 'a completion \<times> 'w"

definition js_return :: "'a \<Rightarrow> ('w, 'a) js" where
  "js_return a w = (Return a, w)"

definition js_throw :: "string \<Rightarrow> ('w, 'a) js" where
  "js_throw e w = (Throw e, w)"

definition js_bind :: "('w, 'a) js \<Rightarrow> ('a \<Rightarrow> ('w, 'b) js) \<Rightarrow> ('w, 'b) js" where
  "js_bind m f w =
     (case m w of
        (Return a, w') \<Rightarrow> f a w'
      | (Throw e, w') \<Rightarrow> (Throw e, w'))"

text \<open>
  The argument of the call. The parameter type asks for an object with a
  property \<^verbatim>\<open>children\<close>; the property is a data property holding a node, or an
  accessor whose getter is a computation of its own. A caller outside the type
  checker can also pass \<^verbatim>\<open>undefined\<close> or \<^verbatim>\<open>null\<close>. The parameter pattern
  \<^verbatim>\<open>{ children }\<close> reads the property when the function is entered: it yields the
  value of a data property, runs the getter of an accessor, and throws a
  \<^verbatim>\<open>TypeError\<close> on what is not an object.
\<close>

datatype ('w, 'x) property = Data "'x node" | Accessor "('w, 'x node) js"

datatype ('w, 'x) argument = Object "('w, 'x) property" | NotObject

fun read_children :: "('w, 'x) argument \<Rightarrow> ('w, 'x node) js" where
  "read_children (Object (Data v)) = js_return v"
| "read_children (Object (Accessor getter)) = getter"
| "read_children NotObject = js_throw ''TypeError''"

text \<open>
  A JSX element is a call of the JSX runtime with the element type, the
  attributes and the child nodes. The runtime is library code outside the
  repository, so the call of the component takes it as a parameter.
  \<open>jsx_element\<close> is the runtime that only builds the element.
\<close>

type_synonym ('w, 'x) runtime =
  "element_type \<Rightarrow> (string \<times> 'x prop_value) list \<Rightarrow> 'x node list \<Rightarrow> ('w, 'x node) js"

definition jsx_element :: "('w, 'x) runtime" where
  "jsx_element ty ps ks = js_return (Element ty ps ks)"

text \<open>
  The call of \<^verbatim>\<open>RootLayout\<close>, lines 9 to 32: the parameter pattern reads
  \<^verbatim>\<open>children\<close>, then the \<^verbatim>\<open>return\<close> statement evaluates the JSX expression.
  The arguments of a call are evaluated before the call and from left to right,
  so the elements are built inside out in source order: \<^verbatim>\<open>title\<close>, \<^verbatim>\<open>meta\<close>,
  \<^verbatim>\<open>Head\<close>, \<^verbatim>\<open>TopNavBar\<close>, \<^verbatim>\<open>Analytics\<close>, \<^verbatim>\<open>Provider\<close>, \<^verbatim>\<open>body\<close>, \<^verbatim>\<open>html\<close>. The
  body has no other statement.
\<close>

definition RootLayout_run :: "('w, 'x) runtime \<Rightarrow> ('w, 'x) argument \<Rightarrow> ('w, 'x node) js" where
  "RootLayout_run jsx arg =
    js_bind (read_children arg) (\<lambda>children.
    js_bind (jsx (Intrinsic ''title'') []
               [RString ''AI Resume - Free Open-source Resume Builder and Parser'']) (\<lambda>title.
    js_bind (jsx (Intrinsic ''meta'')
               [(''name'', StringLiteral ''description''),
                (''content'', StringLiteral
                   ''AI Resume is a free, open-source, and powerful resume builder that allows anyone to create a modern professional resume in 3 simple steps. For those who have an existing resume, AI Resume also provides a resume parser to help test and confirm its ATS readability.'')]
               []) (\<lambda>meta.
    js_bind (jsx (Component ''Head'') [] [title, meta]) (\<lambda>head.
    js_bind (jsx (Component ''TopNavBar'') [] []) (\<lambda>nav.
    js_bind (jsx (Component ''Analytics'') [] []) (\<lambda>analytics.
    js_bind (jsx (Component ''Provider'') [(''store'', Identifier ''store'')]
               [nav, children, analytics]) (\<lambda>provider.
    js_bind (jsx (Intrinsic ''body'') [] [provider]) (\<lambda>body.
    jsx (Intrinsic ''html'') [(''lang'', StringLiteral ''en'')] [head, body]))))))))"

text \<open>
  The call as Next.js makes it: a plain object with the data property
  \<^verbatim>\<open>children\<close>, and the runtime that only builds elements.
\<close>

definition RootLayout_call ::
  "'x layout_props \<Rightarrow> 'w \<Rightarrow> 'x node completion \<times> 'w" where
  "RootLayout_call props w =
     RootLayout_run jsx_element (Object (Data (children props))) w"

section \<open>Properties\<close>

subsection \<open>The call and the tree\<close>

text \<open>Sequencing, read off the completion of the first computation.\<close>

lemma js_bind_fst:
  "js_bind m f w =
     (case fst (m w) of
        Return a \<Rightarrow> f a (snd (m w))
      | Throw e \<Rightarrow> (Throw e, snd (m w)))"
  by (cases "m w") (simp add: js_bind_def split: completion.splits)



text \<open>
  With the runtime that only builds elements, a call that reads the node \<open>c\<close>
  as children returns the tree \<open>RootLayout\<close> gives for \<open>c\<close>: the two embeddings
  of the function body agree.
\<close>

lemma RootLayout_run_element:
  assumes "fst (read_children arg w) = Return c"
  shows "fst (RootLayout_run jsx_element arg w) = Return (RootLayout \<lparr>children = c\<rparr>)"
  using assms
  by (simp add: RootLayout_run_def RootLayout_def jsx_element_def js_bind_fst js_return_def)

lemma RootLayout_call_eq: "RootLayout_call props w = (Return (RootLayout props), w)"
  by (simp add: RootLayout_call_def RootLayout_run_def RootLayout_def jsx_element_def
      js_bind_def js_return_def)

text \<open>
  The model can tell a call that throws from one that returns: a getter that
  throws and an argument that is not an object both make the call throw.
\<close>

lemma RootLayout_run_read_throws:
  "fst (RootLayout_run jsx (Object (Accessor (js_throw e))) w) = Throw e"
  "fst (RootLayout_run jsx NotObject w) = Throw ''TypeError''"
  by (simp_all add: RootLayout_run_def js_bind_fst js_throw_def)

subsection \<open>The claims\<close>

text \<open>
  C8. For every children node, the root of the tree returned by RootLayout is
  the html element and its lang attribute is "en", also when the call is made
  in any ambient world: nothing the caller passes changes the attribute.
\<close>

theorem RootLayout_lang_en:
  "type_of (RootLayout props) = Some (Intrinsic ''html'') \<and>
   attr (RootLayout props) ''lang'' = Some (StringLiteral ''en'') \<and>
   (\<exists>t. fst (RootLayout_call props w) = Return t \<and>
        attr t ''lang'' = Some (StringLiteral ''en''))"
  by (simp add: RootLayout_def RootLayout_call_eq attr_def)

text \<open>
  C1. For every children node, the tree returned by RootLayout has, inside its
  body, an element of the component Provider whose store attribute is the
  identifier store, and children is one of the child nodes of that element.
  Provider is the import from react-redux and store the import from
  lib/redux/store.
\<close>

theorem RootLayout_children_in_Provider:
  "\<exists>provider.
     subtree_at [1, 0] (RootLayout props) = Some provider \<and>
     type_of provider = Some (Component ''Provider'') \<and>
     attr provider ''store'' = Some (Identifier ''store'') \<and>
     children props \<in> set (kids provider) \<and>
     import_source layout_module ''Provider'' = Some ''react-redux'' \<and>
     import_source layout_module ''store'' = Some ''lib/redux/store''"
  by (simp add: RootLayout_def attr_def layout_module_def)

text \<open>
  C2. For every children node, the tree returned by RootLayout contains the
  TopNavBar element inside body (below the node at path 1, which is the body
  element), in the same child list as children and directly before it.
\<close>

theorem RootLayout_TopNavBar_before_children:
  "\<exists>body parent rest.
     subtree_at [1] (RootLayout props) = Some body \<and>
     type_of body = Some (Intrinsic ''body'') \<and>
     subtree_at [1, 0] (RootLayout props) = Some parent \<and>
     kids parent = Element (Component ''TopNavBar'') [] [] # children props # rest \<and>
     import_source layout_module ''TopNavBar'' = Some ''components/TopNavBar''"
  by (simp add: RootLayout_def layout_module_def)

text \<open>
  C3. RootLayout has no state and no effect of its own. For every children
  value, two calls that read this value as children return the same tree, in
  whatever worlds they are made and through whatever arguments, as long as what
  the JSX runtime returns does not depend on the world; and a call whose read
  of children and whose runtime leave the world alone leaves the world alone.
\<close>

theorem RootLayout_deterministic:
  assumes runtime: "\<And>ty ps ks w. fst (jsx ty ps ks w) = Return (mk ty ps ks)"
    and read1: "fst (read_children arg1 w1) = Return c"
    and read2: "fst (read_children arg2 w2) = Return c"
  shows "fst (RootLayout_run jsx arg1 w1) = fst (RootLayout_run jsx arg2 w2) \<and>
         (\<exists>t. fst (RootLayout_run jsx arg1 w1) = Return t) \<and>
         ((\<forall>ty ps ks w. snd (jsx ty ps ks w) = w) \<and> snd (read_children arg1 w1) = w1 \<longrightarrow>
            snd (RootLayout_run jsx arg1 w1) = w1)"
  by (simp add: RootLayout_run_def js_bind_fst runtime read1 read2)

theorem RootLayout_deterministic_witness:
  "fst (RootLayout_run jsx_element (Object (Data (RString ''page'' :: unit node))) (0::nat)) =
     fst (RootLayout_run jsx_element (Object (Data (RString ''page''))) (1::nat)) \<and>
   snd (RootLayout_run jsx_element (Object (Data (RString ''page'' :: unit node))) (0::nat)) = 0"
proof -
  let ?arg = "Object (Data (RString ''page'' :: unit node)) :: (nat, unit) argument"
  have runtime: "fst (jsx_element ty ps ks w) = Return (Element ty ps ks)"
    for ty ps and ks :: "unit node list" and w :: nat
    by (simp add: jsx_element_def js_return_def)
  have read0: "fst (read_children ?arg 0) = Return (RString ''page'')"
    and read1: "fst (read_children ?arg 1) = Return (RString ''page'')"
    by (simp_all add: js_return_def)
  have still: "(\<forall>ty ps (ks :: unit node list) (w :: nat). snd (jsx_element ty ps ks w) = w) \<and>
      snd (read_children ?arg 0) = 0"
    by (simp add: jsx_element_def js_return_def)
  from RootLayout_deterministic [of jsx_element Element ?arg 0 "RString ''page''" ?arg 1,
      OF runtime read0 read1] still
  show ?thesis by blast
qed

text \<open>
  C4. For every children node, the first child of the root is an element of
  the component Head (the default import of next/head) whose child nodes are a
  title element and a meta element with the attribute name = "description".
\<close>

theorem RootLayout_head_tags:
  "\<exists>head title meta.
     subtree_at [0] (RootLayout props) = Some head \<and>
     type_of head = Some (Component ''Head'') \<and>
     kids head = [title, meta] \<and>
     type_of title = Some (Intrinsic ''title'') \<and>
     type_of meta = Some (Intrinsic ''meta'') \<and>
     attr meta ''name'' = Some (StringLiteral ''description'') \<and>
     import_source layout_module ''Head'' = Some ''next/head''"
  by (simp add: RootLayout_def attr_def layout_module_def)

text \<open>
  Replacing at a position of the tree puts the new node there: reading the
  path back gives the node that was written.
\<close>

lemma subst_at_reads_back:
  "subtree_at p t = Some old \<Longrightarrow> subtree_at p (subst_at p new t) = Some new"
proof (induction p arbitrary: t)
  case Nil
  then show ?case by simp
next
  case (Cons i p)
  then show ?case by (cases t) (simp_all split: if_splits)
qed

text \<open>
  C6. For every two children values, the tree returned for the second is the
  tree returned for the first with the node at path 1, 0, 1 (the slot of
  children) replaced by the second children: nothing else differs.
\<close>

theorem RootLayout_frame:
  "RootLayout p2 = subst_at [1, 0, 1] (children p2) (RootLayout p1)"
  by (simp add: RootLayout_def)

text \<open>
  A child of a node is smaller than the node, so no node is a proper subtree of
  itself.
\<close>

lemma size_kid: "i < length (kids t) \<Longrightarrow> size (kids t ! i) < size t"
proof (cases t)
  case (RArray ks)
  assume "i < length (kids t)"
  with RArray have "ks ! i \<in> set ks" by simp
  then have "size (ks ! i) \<le> size_list size ks" by (rule size_list_estimation') simp
  with RArray show ?thesis by simp
next
  case (Element ty ps ks)
  assume "i < length (kids t)"
  with Element have "ks ! i \<in> set ks" by simp
  then have "size (ks ! i) \<le> size_list size ks" by (rule size_list_estimation') simp
  with Element show ?thesis by simp
qed simp_all

lemma size_subtree: "subtree_at q t = Some s \<Longrightarrow> q \<noteq> [] \<Longrightarrow> size s < size t"
proof (induction q arbitrary: t)
  case Nil
  then show ?case by simp
next
  case (Cons i q)
  from Cons.prems(1) have i: "i < length (kids t)"
    and sub: "subtree_at q (kids t ! i) = Some s"
    by (simp_all split: if_splits)
  show ?case
  proof (cases "q = []")
    case True
    with sub size_kid [OF i] show ?thesis by simp
  next
    case False
    from Cons.IH [OF sub False] size_kid [OF i] show ?thesis by simp
  qed
qed

lemma subtree_self: "subtree_at q t = Some t \<Longrightarrow> q = []"
  using size_subtree [of q t t] by auto

lemma at_string: "subtree_at p (RString s) = Some x \<Longrightarrow> p = [] \<and> x = RString s"
  by (cases p) simp_all

lemma at_none: "subtree_at p (Element ty ps []) = Some x \<Longrightarrow> p = [] \<and> x = Element ty ps []"
  by (cases p) simp_all

lemma at_one:
  "subtree_at p (Element ty ps [a]) = Some x \<Longrightarrow>
   (p = [] \<and> x = Element ty ps [a]) \<or> (\<exists>q. p = 0 # q \<and> subtree_at q a = Some x)"
  by (cases p) (auto split: if_splits)

lemma at_two:
  "subtree_at p (Element ty ps [a, b]) = Some x \<Longrightarrow>
   (p = [] \<and> x = Element ty ps [a, b]) \<or>
   (\<exists>q. p = 0 # q \<and> subtree_at q a = Some x) \<or>
   (\<exists>q. p = 1 # q \<and> subtree_at q b = Some x)"
  by (cases p) (auto simp add: less_Suc_eq split: if_splits)

lemma at_three:
  "subtree_at p (Element ty ps [a, b, c]) = Some x \<Longrightarrow>
   (p = [] \<and> x = Element ty ps [a, b, c]) \<or>
   (\<exists>q. p = 0 # q \<and> subtree_at q a = Some x) \<or>
   (\<exists>q. p = 1 # q \<and> subtree_at q b = Some x) \<or>
   (\<exists>q. p = 2 # q \<and> subtree_at q c = Some x)"
  by (cases p) (auto simp add: less_Suc_eq split: if_splits)

text \<open>
  Every position of the returned tree that holds a node equal to children is
  the slot, or a position of the layout's own content, which holds the same
  node whatever children is.
\<close>

lemma RootLayout_occurrences:
  assumes "subtree_at p (RootLayout props) = Some (children props)"
  shows "p = [1, 0, 1] \<or>
         (\<forall>props'. subtree_at p (RootLayout props') = Some (children props))"
proof -
  have above: "subtree_at [1, 0] (RootLayout props) \<noteq> Some (children props)"
    "subtree_at [1] (RootLayout props) \<noteq> Some (children props)"
    "subtree_at [] (RootLayout props) \<noteq> Some (children props)"
    by (auto simp add: RootLayout_def dest: arg_cong [where f = size])
  show ?thesis
    using assms above unfolding RootLayout_def
    by (auto dest!: at_none at_one at_two at_three at_string subtree_self)
qed

text \<open>
  C7. For every children node, body has one child, the Provider element, whose
  child nodes are exactly TopNavBar, children itself and Analytics, in this
  order. The tree for any other children is this tree with the node at path
  1, 0, 1 replaced, so children fills one position and nothing else depends on
  it. A node equal to children at any other position belongs to the layout's
  own content: it is there for every children.
\<close>

theorem RootLayout_children_once:
  "(\<exists>body provider.
      subtree_at [1] (RootLayout props) = Some body \<and>
      type_of body = Some (Intrinsic ''body'') \<and>
      kids body = [provider] \<and>
      type_of provider = Some (Component ''Provider'') \<and>
      kids provider =
        [Element (Component ''TopNavBar'') [] [], children props,
         Element (Component ''Analytics'') [] []]) \<and>
   (\<forall>props'. RootLayout props' = subst_at [1, 0, 1] (children props') (RootLayout props)) \<and>
   (\<forall>p. subtree_at p (RootLayout props) = Some (children props) \<longrightarrow>
      p = [1, 0, 1] \<or>
      (\<forall>props'. subtree_at p (RootLayout props') = Some (children props)))"
proof (intro conjI allI impI)
  show "\<exists>body provider.
      subtree_at [1] (RootLayout props) = Some body \<and>
      type_of body = Some (Intrinsic ''body'') \<and>
      kids body = [provider] \<and>
      type_of provider = Some (Component ''Provider'') \<and>
      kids provider =
        [Element (Component ''TopNavBar'') [] [], children props,
         Element (Component ''Analytics'') [] []]"
    by (simp add: RootLayout_def)
next
  fix props' :: "'a layout_props"
  show "RootLayout props' = subst_at [1, 0, 1] (children props') (RootLayout props)"
    by (simp add: RootLayout_def)
next
  fix p
  assume "subtree_at p (RootLayout props) = Some (children props)"
  then show "p = [1, 0, 1] \<or>
      (\<forall>props'. subtree_at p (RootLayout props') = Some (children props))"
    by (rule RootLayout_occurrences)
qed

theorem RootLayout_children_once_witness:
  "subtree_at [1, 0, 0]
     (RootLayout \<lparr>children = Element (Component ''TopNavBar'') [] [] :: unit node\<rparr>) =
     Some (Element (Component ''TopNavBar'') [] []) \<and>
   (\<forall>props'. subtree_at [1, 0, 0] (RootLayout props') =
      Some (Element (Component ''TopNavBar'') [] [] :: unit node))"
proof -
  let ?props = "\<lparr>children = Element (Component ''TopNavBar'') [] [] :: unit node\<rparr>"
  have found: "subtree_at [1, 0, 0] (RootLayout ?props) = Some (children ?props)"
    by (simp add: RootLayout_def)
  from RootLayout_children_once [of ?props]
  have "\<forall>p. subtree_at p (RootLayout ?props) = Some (children ?props) \<longrightarrow>
      p = [1, 0, 1] \<or>
      (\<forall>props'. subtree_at p (RootLayout props') = Some (children ?props))"
    by blast
  with found have "[1, 0, 0] = [1, 0, 1 :: nat] \<or>
      (\<forall>props'. subtree_at [1, 0, 0] (RootLayout props') = Some (children ?props))"
    by blast
  with found show ?thesis by simp
qed




end
